theory Spec2Isabelle
  imports Complex_Main
begin

section \<open>JavaScript numbers\<close>

text \<open>
  The script computes with JavaScript numbers. A number is modelled as a finite real, one of
  the two infinities, or NaN. Arithmetic on finite values is exact (rounding, overflow of
  finite values and the sign of zero are left out); how NaN and the infinities arise and
  propagate is as in the language: \<open>undefined\<close> converts to NaN, NaN is absorbing,
  \<open>0 / 0\<close> and \<open>Infinity - Infinity\<close> are NaN, a non-zero number divided by zero
  is an infinity, and \<open>Math.min\<close> is NaN as soon as one argument is.
\<close>

datatype jsnum = Fin real | PInf | NInf | NaN

fun js_add :: "jsnum \<Rightarrow> jsnum \<Rightarrow> jsnum" where
  "js_add NaN _ = NaN"
| "js_add _ NaN = NaN"
| "js_add (Fin a) (Fin b) = Fin (a + b)"
| "js_add (Fin _) PInf = PInf"
| "js_add (Fin _) NInf = NInf"
| "js_add PInf NInf = NaN"
| "js_add PInf _ = PInf"
| "js_add NInf PInf = NaN"
| "js_add NInf _ = NInf"

fun js_sub :: "jsnum \<Rightarrow> jsnum \<Rightarrow> jsnum" where
  "js_sub NaN _ = NaN"
| "js_sub _ NaN = NaN"
| "js_sub (Fin a) (Fin b) = Fin (a - b)"
| "js_sub (Fin _) PInf = NInf"
| "js_sub (Fin _) NInf = PInf"
| "js_sub PInf PInf = NaN"
| "js_sub PInf _ = PInf"
| "js_sub NInf NInf = NaN"
| "js_sub NInf _ = NInf"

fun js_div :: "jsnum \<Rightarrow> jsnum \<Rightarrow> jsnum" where
  "js_div NaN _ = NaN"
| "js_div _ NaN = NaN"
| "js_div (Fin a) (Fin b) =
     (if b \<noteq> 0 then Fin (a / b)
      else if a = 0 then NaN
      else if 0 < a then PInf else NInf)"
| "js_div (Fin _) _ = Fin 0"
| "js_div PInf (Fin b) = (if 0 \<le> b then PInf else NInf)"
| "js_div NInf (Fin b) = (if 0 \<le> b then NInf else PInf)"
| "js_div _ _ = NaN"

text \<open>\<open>Math.pow(x, n)\<close> for a natural exponent \<open>n\<close> (the script only uses \<open>n = 2\<close>).\<close>

fun Math_pow :: "jsnum \<Rightarrow> nat \<Rightarrow> jsnum" where
  "Math_pow NaN n = (if n = 0 then Fin 1 else NaN)"
| "Math_pow (Fin a) n = Fin (a ^ n)"
| "Math_pow PInf n = (if n = 0 then Fin 1 else PInf)"
| "Math_pow NInf n = (if n = 0 then Fin 1 else if even n then PInf else NInf)"

fun Math_sqrt :: "jsnum \<Rightarrow> jsnum" where
  "Math_sqrt NaN = NaN"
| "Math_sqrt (Fin a) = (if a < 0 then NaN else Fin (sqrt a))"
| "Math_sqrt PInf = PInf"
| "Math_sqrt NInf = NaN"

fun Math_min :: "jsnum \<Rightarrow> jsnum \<Rightarrow> jsnum" where
  "Math_min NaN _ = NaN"
| "Math_min _ NaN = NaN"
| "Math_min NInf _ = NInf"
| "Math_min _ NInf = NInf"
| "Math_min PInf b = b"
| "Math_min a PInf = a"
| "Math_min (Fin a) (Fin b) = Fin (min a b)"

section \<open>Coordinate arrays\<close>

text \<open>
  The coordinates of a geometry are nested arrays of numbers, as in GeoJSON: a line is an
  array of two-element points, a multi-line an array of lines. \<open>js_index v k\<close> is the
  property read \<open>v[k]\<close>: an element of an array, and \<open>undefined\<close> (\<open>None\<close>)
  beyond its end or when \<open>v\<close> is a number. \<open>ToNumber\<close> is the conversion that the
  operator \<open>-\<close> applies to its operands: an array converts through its string form, so
  the empty array gives \<open>0\<close>, a one-element array the number of its element and a longer
  one NaN; \<open>undefined\<close> gives NaN.
\<close>

datatype coords = Num jsnum | Arr "coords list"

fun js_index :: "coords \<Rightarrow> nat \<Rightarrow> coords option" where
  "js_index (Arr xs) k = (if k < length xs then Some (xs ! k) else None)"
| "js_index (Num _) k = None"

fun ToNumber :: "coords \<Rightarrow> jsnum" where
  "ToNumber (Num n) = n"
| "ToNumber (Arr []) = Fin 0"
| "ToNumber (Arr [x]) = ToNumber x"
| "ToNumber (Arr (x # y # zs)) = NaN"

fun operand :: "coords option \<Rightarrow> jsnum" where
  "operand None = NaN"
| "operand (Some v) = ToNumber v"

fun isNum :: "coords \<Rightarrow> bool" where
  "isNum (Num _) = True"
| "isNum (Arr _) = False"

section \<open>The migration estimator: \<open>calculateMigrationRate\<close>\<close>

text \<open>
  \<open>flatten\<close> is the inner recursive function of \<open>flattenCoords\<close>; the array
  \<open>flatList\<close> it pushes to is passed in and returned. An element that is an array is
  descended into, any other element is pushed.
\<close>

fun flatten :: "coords list \<Rightarrow> coords list \<Rightarrow> coords list" where
  "flatten [] flatList = flatList"
| "flatten (Arr a # rest) flatList = flatten rest (flatten a flatList)"
| "flatten (Num n # rest) flatList = flatten rest (flatList @ [Num n])"

definition flattenCoords :: "coords list \<Rightarrow> coords list" where
  "flattenCoords coords = flatten coords []"

text \<open>The body of the inner loop: the distance between \<open>point1\<close> and \<open>point2\<close>.\<close>

definition dist_js :: "coords \<Rightarrow> coords \<Rightarrow> jsnum" where
  "dist_js point1 point2 =
     Math_sqrt
       (js_add
         (Math_pow (js_sub (operand (js_index point2 0)) (operand (js_index point1 0))) 2)
         (Math_pow (js_sub (operand (js_index point2 1)) (operand (js_index point1 1))) 2))"

text \<open>The inner loop over \<open>coords2\<close>, started with \<open>minDistance = Infinity\<close>.\<close>

fun minDistance_loop :: "coords \<Rightarrow> coords list \<Rightarrow> jsnum \<Rightarrow> jsnum" where
  "minDistance_loop point1 [] minDistance = minDistance"
| "minDistance_loop point1 (point2 # rest) minDistance =
     minDistance_loop point1 rest (Math_min minDistance (dist_js point1 point2))"

text \<open>The outer loop over \<open>coords1\<close>, pushing one minimum per element.\<close>

fun distances_loop :: "coords list \<Rightarrow> coords list \<Rightarrow> jsnum list \<Rightarrow> jsnum list" where
  "distances_loop [] coords2 distances = distances"
| "distances_loop (point1 # rest) coords2 distances =
     distances_loop rest coords2 (distances @ [minDistance_loop point1 coords2 PInf])"

record ee_geometry =
  gtype :: string
  coordinates :: "coords list"

record ee_feature =
  geometry :: ee_geometry

text \<open>
  The function returns a number; what it writes with \<open>console.log\<close> is returned beside
  it. No statement of the function throws on nested arrays of numbers, so there is no
  error result.
\<close>

definition calculateMigrationRate ::
  "ee_feature \<Rightarrow> ee_feature \<Rightarrow> jsnum \<Rightarrow> jsnum \<times> string list" where
  "calculateMigrationRate centerline1 centerline2 timeInterval =
     (let geom1 = geometry centerline1;
          geom2 = geometry centerline2
      in if \<not> List.member [''MultiLineString'', ''LineString''] (gtype geom1)
            \<or> \<not> List.member [''MultiLineString'', ''LineString''] (gtype geom2)
         then (Fin 0, [''Input geometries must be LineString or MultiLineString''])
         else
           let coords1 = flattenCoords (coordinates geom1);
               coords2 = flattenCoords (coordinates geom2);
               distances = distances_loop coords1 coords2 [];
               averageDistance =
                 js_div (foldl js_add (Fin 0) distances) (Fin (real (length distances)));
               migrationRate = js_div averageDistance timeInterval
           in (migrationRate, []))"

text \<open>
  The numeric leaves of a nested array in depth-first, left-to-right order, written
  independently of \<open>flatten\<close>, to compare it with.
\<close>

fun leaves_dfs :: "coords \<Rightarrow> jsnum list" where
  "leaves_dfs (Num n) = [n]"
| "leaves_dfs (Arr xs) = concat (map leaves_dfs xs)"

text \<open>A line through the given points, as the feature the estimator receives.\<close>

definition point_arr :: "real \<times> real \<Rightarrow> coords" where
  "point_arr p = Arr [Num (Fin (fst p)), Num (Fin (snd p))]"

definition line_feature :: "(real \<times> real) list \<Rightarrow> ee_feature" where
  "line_feature ps =
     \<lparr>geometry = \<lparr>gtype = ''LineString'', coordinates = map point_arr ps\<rparr>\<rparr>"

text \<open>JavaScript's \<open>isFinite\<close>, and the test for a finite rate above zero.\<close>

fun isFinite :: "jsnum \<Rightarrow> bool" where
  "isFinite (Fin _) = True"
| "isFinite _ = False"

fun isPositiveFinite :: "jsnum \<Rightarrow> bool" where
  "isPositiveFinite (Fin a) = (0 < a)"
| "isPositiveFinite _ = False"

text \<open>A feature whose geometry is a polygon: not line-like.\<close>

definition polygon_feature :: "coords list \<Rightarrow> ee_feature" where
  "polygon_feature cs = \<lparr>geometry = \<lparr>gtype = ''Polygon'', coordinates = cs\<rparr>\<rparr>"

text \<open>
  The estimate as the specification words it, on lists of points and real numbers: the mean
  over \<open>P1\<close> of the distance to the nearest point of \<open>P2\<close>, divided by the interval.
\<close>

definition euclid :: "real \<times> real \<Rightarrow> real \<times> real \<Rightarrow> real" where
  "euclid p q = sqrt ((fst q - fst p)\<^sup>2 + (snd q - snd p)\<^sup>2)"

definition spec_estimate ::
  "(real \<times> real) list \<Rightarrow> (real \<times> real) list \<Rightarrow> real \<Rightarrow> real" where
  "spec_estimate P1 P2 t =
     sum_list (map (\<lambda>p. Min (set (map (euclid p) P2))) P1) / real (length P1) / t"

section \<open>The pipeline: \<open>main\<close>\<close>

text \<open>The script's constants.\<close>

definition start_year :: int where
  "start_year = 1995"

definition end_year :: int where
  "end_year = 2025"

definition time_interval :: int where
  "time_interval = 10"

text \<open>
  The loop that fills \<open>years\<close>, \<open>for (year = start_year; year <= end_year; year +=
  time_interval)\<close>. It need not end for every value of the constants, so it returns an
  option.
\<close>

partial_function (option) years_loop :: "int \<Rightarrow> int list \<Rightarrow> int list option" where
  "years_loop year years =
     (if year \<le> end_year then years_loop (year + time_interval) (years @ [year])
      else Some years)"

text \<open>An array read \<open>xs[i]\<close>: \<open>undefined\<close> (\<open>None\<close>) beyond the end.\<close>

definition js_nth :: "'a list \<Rightarrow> nat \<Rightarrow> 'a option" where
  "js_nth xs i = (if i < length xs then Some (xs ! i) else None)"

text \<open>
  Step 3.4: one rate for each index \<open>i < centerlines.length - 1\<close>, from
  \<open>centerlines[i]\<close> and \<open>centerlines[i + 1]\<close>.
\<close>

definition migrationRates_loop :: "ee_feature list \<Rightarrow> jsnum \<Rightarrow> jsnum list" where
  "migrationRates_loop centerlines t =
     map (\<lambda>i. fst (calculateMigrationRate (centerlines ! i) (centerlines ! (i + 1)) t))
       [0..<length centerlines - 1]"

text \<open>
  Step 3.5: \<open>years.slice(0, -1)\<close> mapped, with its index, to the rows of the exported
  table.
\<close>

record rate_row =
  Year1 :: int
  Year2 :: "int option"
  MigrationRate :: "jsnum option"

definition migrationRateData :: "int list \<Rightarrow> jsnum list \<Rightarrow> rate_row list" where
  "migrationRateData years migrationRates =
     map (\<lambda>(index, year).
            \<lparr>Year1 = year, Year2 = js_nth years (index + 1),
             MigrationRate = js_nth migrationRates index\<rparr>)
       (enumerate 0 (take (length years - 1) years))"

text \<open>
  Steps 3.3 to 3.5 for a list of years. The centerline of a year comes from imagery of the
  platform (composite, water mask, \<open>extractCenterline\<close>) and is a parameter here. What
  the script logs and exports on the way is left out.
\<close>

definition main_from_years :: "(int \<Rightarrow> ee_feature) \<Rightarrow> int list \<Rightarrow> jsnum \<Rightarrow> rate_row list" where
  "main_from_years centerline_of years t =
     (let centerlines = map centerline_of years;
          migrationRates = migrationRates_loop centerlines t
      in migrationRateData years migrationRates)"

definition main :: "(int \<Rightarrow> ee_feature) \<Rightarrow> rate_row list option" where
  "main centerline_of =
     (case years_loop start_year [] of
        None \<Rightarrow> None
      | Some years \<Rightarrow>
          Some (main_from_years centerline_of years (Fin (real_of_int time_interval))))"

section \<open>The centerline extraction: \<open>extractCenterline\<close>\<close>

text \<open>
  An image of the platform assigns a value to every pixel of the plane, or none where the
  pixel is masked.
\<close>

type_synonym pixel = "int \<times> int"

type_synonym image = "pixel \<Rightarrow> real option"

text \<open>
  Modelled from the spec: the platform's pixel-wise comparison and self-masking, which the
  script calls and does not define. \<open>gt\<close> is \<open>1\<close> where the first value is
  strictly greater than the second and \<open>0\<close> elsewhere, masked where an input is;
  \<open>selfMask\<close> masks the pixels of value \<open>0\<close>, so that the remaining pixels are
  the marked ones.
\<close>

definition gt :: "image \<Rightarrow> image \<Rightarrow> image" where
  "gt a b p =
     (case (a p, b p) of
        (Some x, Some y) \<Rightarrow> Some (if y < x then 1 else 0)
      | _ \<Rightarrow> None)"

definition selfMask :: "image \<Rightarrow> image" where
  "selfMask a p = (case a p of Some v \<Rightarrow> (if v = 0 then None else Some v) | None \<Rightarrow> None)"

text \<open>
  Modelled from the spec: the platform's \<open>focal_max\<close>, "the local maximum of the
  distance transform within a square window of the given size centered on that pixel": the
  greatest unmasked value among the pixels at most \<open>size div 2\<close> away along each axis.
\<close>

definition window :: "nat \<Rightarrow> pixel \<Rightarrow> pixel list" where
  "window n p =
     concat (map (\<lambda>dx. map (\<lambda>dy. (fst p + dx, snd p + dy)) [- int (n div 2) .. int (n div 2)])
       [- int (n div 2) .. int (n div 2)])"

definition focal_max :: "image \<Rightarrow> nat \<Rightarrow> image" where
  "focal_max img n p =
     (let vs = List.map_filter img (window n p)
      in if vs = [] then None else Some (Max (set vs)))"

text \<open>
  The platform operations that neither the script nor the specification pins down are
  parameters: erosion and dilation (\<open>morphology\<close>), the distance transform, the tracing
  of a connected component into a path, and the simplification of one line.
\<close>

record ee_platform =
  morphology :: "image \<Rightarrow> string \<Rightarrow> nat \<Rightarrow> image"
  distance :: "image \<Rightarrow> image"
  trace :: "pixel list \<Rightarrow> (real \<times> real) list"
  simplify_line :: "real \<Rightarrow> (real \<times> real) list \<Rightarrow> (real \<times> real) list"

text \<open>
  The raster part of \<open>extractCenterline\<close>; \<open>centerline_mask\<close> is its expression
  \<open>distance.gt(distance.focal_max({size: 5})).selfMask()\<close>.
\<close>

definition centerline_mask :: "image \<Rightarrow> image" where
  "centerline_mask distance_img = selfMask (gt distance_img (focal_max distance_img 5))"

definition extractCenterline_raster :: "ee_platform \<Rightarrow> image \<Rightarrow> image" where
  "extractCenterline_raster ops img =
     (let eroded = morphology ops img ''erode'' 2;
          dilated = morphology ops eroded ''dilate'' 2;
          distance_img = distance ops dilated
      in centerline_mask distance_img)"

text \<open>
  Modelled from the spec: the platform's \<open>reduceToVectors\<close> as the specification's
  vectorizer. The unmasked pixels of the region are grouped into 8-connected components,
  components of fewer than three pixels are dropped, and one polyline is emitted per
  component. \<open>grow\<close> extends a component by the remaining pixels that touch it, until
  none does.
\<close>

definition adjacent8 :: "pixel \<Rightarrow> pixel \<Rightarrow> bool" where
  "adjacent8 p q = (\<bar>fst p - fst q\<bar> \<le> 1 \<and> \<bar>snd p - snd q\<bar> \<le> 1)"

definition touches :: "pixel list \<Rightarrow> pixel \<Rightarrow> bool" where
  "touches cmp q = list_ex (\<lambda>p. adjacent8 p q) cmp"

lemma length_filter_not_less:
  "filter P xs \<noteq> [] \<Longrightarrow> length (filter (\<lambda>x. \<not> P x) xs) < length xs"
  by (induction xs) (auto simp add: less_Suc_eq_le split: if_splits)

function grow :: "pixel list \<Rightarrow> pixel list \<Rightarrow> pixel list \<times> pixel list" where
  "grow cmp rest =
     (if filter (touches cmp) rest = [] then (cmp, rest)
      else grow (cmp @ filter (touches cmp) rest) (filter (\<lambda>q. \<not> touches cmp q) rest))"
  by pat_completeness auto
termination
  by (relation "measure (\<lambda>(cmp, rest). length rest)") (auto simp add: length_filter_not_less)

declare grow.simps [simp del]

lemma grow_rest_length: "length (snd (grow cmp rest)) \<le> length rest"
proof (induction cmp rest rule: grow.induct)
  case (1 cmp rest)
  show ?case
  proof (cases "filter (touches cmp) rest = []")
    case True
    then show ?thesis by (simp add: grow.simps [of cmp rest])
  next
    case False
    have "length (snd (grow cmp rest)) =
        length (snd (grow (cmp @ filter (touches cmp) rest)
          (filter (\<lambda>q. \<not> touches cmp q) rest)))"
      using False by (simp add: grow.simps [of cmp rest])
    also have "\<dots> \<le> length (filter (\<lambda>q. \<not> touches cmp q) rest)"
      using "1.IH" [OF False] .
    also have "\<dots> \<le> length rest" by simp
    finally show ?thesis .
  qed
qed

function components8 :: "pixel list \<Rightarrow> pixel list list" where
  "components8 [] = []"
| "components8 (p # ps) = fst (grow [p] ps) # components8 (snd (grow [p] ps))"
  by pat_completeness auto
termination
  by (relation "measure length") (auto simp add: grow_rest_length less_Suc_eq_le)

definition reduceToVectors :: "ee_platform \<Rightarrow> image \<Rightarrow> pixel list \<Rightarrow> (real \<times> real) list list" where
  "reduceToVectors ops img region =
     map (trace ops)
       (filter (\<lambda>c. 3 \<le> length c) (components8 (filter (\<lambda>p. img p \<noteq> None) region)))"

text \<open>\<open>extractCenterline\<close>: the vectors of the centerline mask, each simplified.\<close>

definition extractCenterline ::
  "ee_platform \<Rightarrow> pixel list \<Rightarrow> image \<Rightarrow> (real \<times> real) list list" where
  "extractCenterline ops study_area img =
     map (simplify_line ops 10)
       (reduceToVectors ops (extractCenterline_raster ops img) study_area)"

text \<open>
  The distance field of a vertical band five pixels wide: \<open>1, 2, 3, 2, 1\<close> across the
  band, \<open>0\<close> outside it.
\<close>

definition band_distance :: image where
  "band_distance p =
     (if 0 \<le> fst p \<and> fst p < 5 then Some (real_of_int (min (fst p + 1) (5 - fst p)))
      else Some 0)"

section \<open>Facts about the estimator\<close>

lemma flatten_leaves:
  "flatten cs acc = acc @ map Num (concat (map leaves_dfs cs))"
  by (induction cs acc rule: flatten.induct) simp_all

lemma flattenCoords_leaves:
  "flattenCoords cs = map Num (concat (map leaves_dfs cs))"
  by (simp add: flattenCoords_def flatten_leaves)

lemma dist_js_Num: "dist_js (Num a) (Num b) = NaN"
  by (simp add: dist_js_def)

lemma Math_min_NaN_right: "Math_min m NaN = NaN"
  by (cases m) simp_all

lemma minDistance_loop_NaN: "minDistance_loop p ys NaN = NaN"
  by (induction ys) simp_all

lemma minDistance_loop_Num:
  "minDistance_loop (Num a) (map Num ys) m = (if ys = [] then m else NaN)"
  by (cases ys) (simp_all add: dist_js_Num Math_min_NaN_right minDistance_loop_NaN)

lemma distances_loop_map:
  "distances_loop xs ys acc = acc @ map (\<lambda>p. minDistance_loop p ys PInf) xs"
  by (induction xs arbitrary: acc) simp_all

lemma distances_loop_Num:
  "distances_loop (map Num xs) (map Num ys) [] =
     replicate (length xs) (if ys = [] then PInf else NaN)"
  by (simp add: distances_loop_map minDistance_loop_Num map_replicate_const comp_def)

lemma foldl_add_NaN: "foldl js_add NaN ds = NaN"
  by (induction ds) simp_all

lemma foldl_add_PInf_replicate: "foldl js_add PInf (replicate n PInf) = PInf"
  by (induction n) simp_all

lemma sum_replicate_NaN:
  "foldl js_add (Fin 0) (replicate n NaN) = (if n = 0 then Fin 0 else NaN)"
  by (cases n) (simp_all add: foldl_add_NaN)

lemma sum_replicate_PInf:
  "foldl js_add (Fin 0) (replicate n PInf) = (if n = 0 then Fin 0 else PInf)"
  by (cases n) (simp_all add: foldl_add_PInf_replicate)

text \<open>
  The value the estimator returns on line-like input: NaN, except that a non-empty earlier
  list against an empty later list gives \<open>Infinity / timeInterval\<close>.
\<close>

lemma calculateMigrationRate_value:
  assumes "List.member [''MultiLineString'', ''LineString''] (gtype (geometry c1))"
    and "List.member [''MultiLineString'', ''LineString''] (gtype (geometry c2))"
  shows "calculateMigrationRate c1 c2 t =
     (if flattenCoords (coordinates (geometry c1)) \<noteq> []
         \<and> flattenCoords (coordinates (geometry c2)) = []
      then js_div PInf t else NaN, [])"
proof -
  let ?xs = "concat (map leaves_dfs (coordinates (geometry c1)))"
  let ?ys = "concat (map leaves_dfs (coordinates (geometry c2)))"
  let ?ds = "replicate (length ?xs) (if ?ys = [] then PInf else NaN)"
  have rate: "calculateMigrationRate c1 c2 t =
      (js_div (js_div (foldl js_add (Fin 0) ?ds) (Fin (real (length ?ds)))) t, [])"
    using assms
    by (simp add: calculateMigrationRate_def Let_def flattenCoords_leaves
        distances_loop_Num)
  have avg: "js_div (foldl js_add (Fin 0) ?ds) (Fin (real (length ?ds))) =
      (if ?xs \<noteq> [] \<and> ?ys = [] then PInf else NaN)"
    by (simp add: sum_replicate_NaN sum_replicate_PInf)
  show ?thesis
    unfolding rate avg by (simp add: flattenCoords_leaves)
qed

lemma line_feature_line_like:
  "List.member [''MultiLineString'', ''LineString''] (gtype (geometry (line_feature ps)))"
  by (simp add: line_feature_def)

text \<open>
  The loop body itself is the Euclidean distance when it is given two points: it is the
  flattening before the loops that takes the points apart.
\<close>

lemma dist_js_points: "dist_js (point_arr p) (point_arr q) = Fin (euclid p q)"
  by (simp add: dist_js_def point_arr_def euclid_def not_less)

lemma sqrt_125: "5 \<le> sqrt 125"
  by (rule real_le_rsqrt) simp

lemma js_div_zero_not_finite: "\<not> isFinite (js_div a (Fin 0))"
  by (cases a) simp_all

lemma js_div_PInf_not_finite: "\<not> isFinite (js_div PInf (Fin r))"
  by simp

section \<open>Flattening reaches the numbers\<close>

text \<open>
  C10. For every nested array of numbers, \<open>flattenCoords\<close> returns the numeric leaves in
  depth-first, left-to-right order. Applied to the coordinate list of \<open>n\<close> two-element
  points it returns the \<open>2 * n\<close> scalars \<open>x1, y1, x2, y2, ...\<close>, not \<open>n\<close> pairs.
  Every element the nearest-neighbour loop then reads is a number, so that both
  \<open>point[0]\<close> and \<open>point[1]\<close> are \<open>undefined\<close> for it.
\<close>

theorem flattenCoords_yields_scalars:
  "flattenCoords cs = map Num (concat (map leaves_dfs cs))
   \<and> flattenCoords (map point_arr ps) =
       concat (map (\<lambda>p. [Num (Fin (fst p)), Num (Fin (snd p))]) ps)
   \<and> length (flattenCoords (map point_arr ps)) = 2 * length ps
   \<and> list_all isNum (flattenCoords cs)
   \<and> map (\<lambda>point. js_index point 0) (flattenCoords cs) =
       replicate (length (flattenCoords cs)) None
   \<and> map (\<lambda>point. js_index point 1) (flattenCoords cs) =
       replicate (length (flattenCoords cs)) None"
proof -
  have pts: "concat (map leaves_dfs (map point_arr qs)) =
      concat (map (\<lambda>p. [Fin (fst p), Fin (snd p)]) qs)" for qs
    by (induction qs) (simp_all add: point_arr_def)
  have flat: "flattenCoords (map point_arr ps) =
      concat (map (\<lambda>p. [Num (Fin (fst p)), Num (Fin (snd p))]) ps)"
    unfolding flattenCoords_leaves pts by (induction ps) simp_all
  have len: "length (flattenCoords (map point_arr ps)) = 2 * length ps"
    unfolding flat by (induction ps) simp_all
  have nums: "list_all isNum (map Num ns)" for ns
    by (induction ns) simp_all
  have idx: "map (\<lambda>point. js_index point k) (map Num ns) = replicate (length ns) None"
    for k ns
    by (induction ns) simp_all
  show ?thesis
    using flat len nums idx by (simp add: flattenCoords_leaves)
qed

section \<open>What the estimator returns\<close>

text \<open>
  C1. The specification's scenario: earlier line \<open>[(0,0), (10,0)]\<close>, later line
  \<open>[(0,5), (10,5)]\<close>, interval \<open>5\<close>. The mean nearest-neighbour distance divided by
  the interval is \<open>1\<close>; the script returns NaN, because the loops run over the flattened
  scalars and read \<open>point[0]\<close> and \<open>point[1]\<close> of numbers.
\<close>

theorem scenario_rate_is_NaN:
  "fst (calculateMigrationRate (line_feature [(0, 0), (10, 0)])
          (line_feature [(0, 5), (10, 5)]) (Fin 5)) = NaN
   \<and> spec_estimate [(0, 0), (10, 0)] [(0, 5), (10, 5)] 5 = 1"
proof
  show "fst (calculateMigrationRate (line_feature [(0, 0), (10, 0)])
          (line_feature [(0, 5), (10, 5)]) (Fin 5)) = NaN"
    by (simp add: calculateMigrationRate_def line_feature_def flattenCoords_def
        point_arr_def dist_js_def)
  show "spec_estimate [(0, 0), (10, 0)] [(0, 5), (10, 5)] 5 = 1"
    using sqrt_125 by (simp add: spec_estimate_def euclid_def min_def)
qed

theorem scenario_rate_is_NaN_witness:
  "fst (calculateMigrationRate (line_feature [(0, 0), (10, 0)])
          (line_feature [(0, 5), (10, 5)]) (Fin 5)) \<noteq> Fin 1"
  using scenario_rate_is_NaN by simp

text \<open>
  C6. For identical earlier and later geometries that hold at least one coordinate the
  script returns NaN, whatever the interval, where the specification expects \<open>0\<close>.
\<close>

theorem identical_sets_rate_is_NaN:
  assumes "List.member [''MultiLineString'', ''LineString''] (gtype (geometry P))"
    and "flattenCoords (coordinates (geometry P)) \<noteq> []"
  shows "fst (calculateMigrationRate P P t) = NaN"
  using assms by (simp add: calculateMigrationRate_value)

theorem identical_sets_rate_is_NaN_witness:
  "List.member [''MultiLineString'', ''LineString'']
     (gtype (geometry (line_feature [(0, 0), (10, 0)])))
   \<and> flattenCoords (coordinates (geometry (line_feature [(0, 0), (10, 0)]))) \<noteq> []
   \<and> fst (calculateMigrationRate (line_feature [(0, 0), (10, 0)])
        (line_feature [(0, 0), (10, 0)]) (Fin 5)) = NaN"
proof -
  have h1: "List.member [''MultiLineString'', ''LineString'']
     (gtype (geometry (line_feature [(0, 0), (10, 0)])))"
    by (rule line_feature_line_like)
  have h2: "flattenCoords (coordinates (geometry (line_feature [(0, 0), (10, 0)]))) \<noteq> []"
    by (simp add: line_feature_def flattenCoords_def point_arr_def)
  from h1 h2 identical_sets_rate_is_NaN [OF h1 h2, of "Fin 5"] show ?thesis
    by blast
qed

text \<open>
  C9. When both geometries are line-like and hold at least one coordinate, the script returns
  NaN for every interval: the rate is not a non-negative real number.
\<close>

theorem preconditions_rate_is_NaN:
  assumes "List.member [''MultiLineString'', ''LineString''] (gtype (geometry c1))"
    and "List.member [''MultiLineString'', ''LineString''] (gtype (geometry c2))"
    and "flattenCoords (coordinates (geometry c1)) \<noteq> []"
    and "flattenCoords (coordinates (geometry c2)) \<noteq> []"
  shows "fst (calculateMigrationRate c1 c2 t) = NaN
    \<and> \<not> isFinite (fst (calculateMigrationRate c1 c2 t))"
  using assms by (simp add: calculateMigrationRate_value)

theorem preconditions_rate_is_NaN_witness:
  "List.member [''MultiLineString'', ''LineString'']
     (gtype (geometry (line_feature [(0, 0), (3, 4)])))
   \<and> List.member [''MultiLineString'', ''LineString'']
     (gtype (geometry (line_feature [(1, 1)])))
   \<and> flattenCoords (coordinates (geometry (line_feature [(0, 0), (3, 4)]))) \<noteq> []
   \<and> flattenCoords (coordinates (geometry (line_feature [(1, 1)]))) \<noteq> []
   \<and> fst (calculateMigrationRate (line_feature [(0, 0), (3, 4)])
        (line_feature [(1, 1)]) (Fin 2)) = NaN
   \<and> \<not> isFinite (fst (calculateMigrationRate (line_feature [(0, 0), (3, 4)])
        (line_feature [(1, 1)]) (Fin 2)))"
proof -
  have h1: "List.member [''MultiLineString'', ''LineString'']
     (gtype (geometry (line_feature [(0, 0), (3, 4)])))"
    by (rule line_feature_line_like)
  have h2: "List.member [''MultiLineString'', ''LineString'']
     (gtype (geometry (line_feature [(1, 1)])))"
    by (rule line_feature_line_like)
  have h3: "flattenCoords (coordinates (geometry (line_feature [(0, 0), (3, 4)]))) \<noteq> []"
    by (simp add: line_feature_def flattenCoords_def point_arr_def)
  have h4: "flattenCoords (coordinates (geometry (line_feature [(1, 1)]))) \<noteq> []"
    by (simp add: line_feature_def flattenCoords_def point_arr_def)
  from h1 h2 h3 h4 preconditions_rate_is_NaN [OF h1 h2 h3 h4, of "Fin 2"]
  show ?thesis by blast
qed

text \<open>
  C2, as stated, fails: a polygon passed as the earlier geometry makes the script log a
  message and return the rate \<open>0\<close>.
\<close>

theorem polygon_returns_zero:
  "calculateMigrationRate
     (polygon_feature [Arr [Arr [Num (Fin 0), Num (Fin 0)], Arr [Num (Fin 4), Num (Fin 0)],
        Arr [Num (Fin 4), Num (Fin 3)], Arr [Num (Fin 0), Num (Fin 0)]]])
     (line_feature [(0, 5), (10, 5)]) (Fin 10)
   = (Fin 0, [''Input geometries must be LineString or MultiLineString''])"
  by (simp add: calculateMigrationRate_def polygon_feature_def line_feature_def)

text \<open>
  C2, amended. Whenever one of the two geometries is neither a LineString nor a
  MultiLineString, the script logs \<open>Input geometries must be LineString or
  MultiLineString\<close> and returns the rate \<open>0\<close>; it raises nothing.
\<close>

theorem not_line_like_logs_and_returns_zero:
  assumes "\<not> List.member [''MultiLineString'', ''LineString''] (gtype (geometry c1))
     \<or> \<not> List.member [''MultiLineString'', ''LineString''] (gtype (geometry c2))"
  shows "calculateMigrationRate c1 c2 t =
     (Fin 0, [''Input geometries must be LineString or MultiLineString''])"
  using assms by (auto simp add: calculateMigrationRate_def Let_def)

theorem not_line_like_logs_and_returns_zero_witness:
  "\<not> List.member [''MultiLineString'', ''LineString'']
        (gtype (geometry \<lparr>geometry = \<lparr>gtype = ''Point'',
           coordinates = [Num (Fin 1), Num (Fin 2)]\<rparr>\<rparr>))
   \<and> calculateMigrationRate (line_feature [(0, 0), (10, 0)])
        \<lparr>geometry = \<lparr>gtype = ''Point'', coordinates = [Num (Fin 1), Num (Fin 2)]\<rparr>\<rparr>
        (Fin 10)
      = (Fin 0, [''Input geometries must be LineString or MultiLineString''])"
proof -
  have p: "\<not> List.member [''MultiLineString'', ''LineString'']
        (gtype (geometry \<lparr>geometry = \<lparr>gtype = ''Point'',
           coordinates = [Num (Fin 1), Num (Fin 2)]\<rparr>\<rparr>))"
    by simp
  then have h: "\<not> List.member [''MultiLineString'', ''LineString'']
        (gtype (geometry (line_feature [(0, 0), (10, 0)])))
    \<or> \<not> List.member [''MultiLineString'', ''LineString'']
        (gtype (geometry \<lparr>geometry = \<lparr>gtype = ''Point'',
           coordinates = [Num (Fin 1), Num (Fin 2)]\<rparr>\<rparr>))"
    by blast
  from p not_line_like_logs_and_returns_zero [OF h, of "Fin 10"] show ?thesis
    by blast
qed

text \<open>
  C3, as stated, fails: with the interval \<open>0\<close> the script returns a number, NaN for
  the scenario's two lines and \<open>Infinity\<close> when the later line has no coordinates.
\<close>

theorem zero_interval_returns_number:
  "calculateMigrationRate (line_feature [(0, 0), (10, 0)])
      (line_feature [(0, 5), (10, 5)]) (Fin 0) = (NaN, [])
   \<and> calculateMigrationRate (line_feature [(0, 0), (10, 0)])
      (line_feature []) (Fin 0) = (PInf, [])"
  by (simp add: calculateMigrationRate_def line_feature_def flattenCoords_def
      point_arr_def dist_js_def)

text \<open>
  C3, amended. The script does not check the interval. For line-like geometries and an
  interval \<open>r \<le> 0\<close> it logs nothing and returns a number that is never a finite rate
  above zero; for \<open>r = 0\<close> the number is NaN or an infinity, never finite.
\<close>

theorem interval_is_not_checked:
  assumes "List.member [''MultiLineString'', ''LineString''] (gtype (geometry c1))"
    and "List.member [''MultiLineString'', ''LineString''] (gtype (geometry c2))"
    and "r \<le> 0"
  shows "snd (calculateMigrationRate c1 c2 (Fin r)) = []
    \<and> \<not> isPositiveFinite (fst (calculateMigrationRate c1 c2 (Fin r)))
    \<and> (r = 0 \<longrightarrow> \<not> isFinite (fst (calculateMigrationRate c1 c2 (Fin r))))"
  using assms by (simp add: calculateMigrationRate_value)

theorem interval_is_not_checked_witness:
  "List.member [''MultiLineString'', ''LineString'']
     (gtype (geometry (line_feature [(0, 0), (10, 0)])))
   \<and> List.member [''MultiLineString'', ''LineString'']
     (gtype (geometry (line_feature [(0, 5), (10, 5)])))
   \<and> (0::real) \<le> 0
   \<and> snd (calculateMigrationRate (line_feature [(0, 0), (10, 0)])
        (line_feature [(0, 5), (10, 5)]) (Fin 0)) = []
   \<and> \<not> isPositiveFinite (fst (calculateMigrationRate (line_feature [(0, 0), (10, 0)])
        (line_feature [(0, 5), (10, 5)]) (Fin 0)))
   \<and> \<not> isFinite (fst (calculateMigrationRate (line_feature [(0, 0), (10, 0)])
        (line_feature [(0, 5), (10, 5)]) (Fin 0)))"
proof -
  have h1: "List.member [''MultiLineString'', ''LineString'']
     (gtype (geometry (line_feature [(0, 0), (10, 0)])))"
    by (rule line_feature_line_like)
  have h2: "List.member [''MultiLineString'', ''LineString'']
     (gtype (geometry (line_feature [(0, 5), (10, 5)])))"
    by (rule line_feature_line_like)
  have h3: "(0::real) \<le> 0" by simp
  from h1 h2 h3 interval_is_not_checked [OF h1 h2 h3] show ?thesis
    by blast
qed

text \<open>
  C5, as stated, fails: with a positive interval, an earlier line without coordinates gives
  NaN and a later line without coordinates gives \<open>Infinity\<close>, not the rate \<open>0\<close>.
\<close>

theorem empty_set_returns_NaN_or_Infinity:
  "calculateMigrationRate (line_feature []) (line_feature [(0, 5), (10, 5)]) (Fin 5)
     = (NaN, [])
   \<and> calculateMigrationRate (line_feature [(0, 0), (10, 0)]) (line_feature []) (Fin 5)
     = (PInf, [])"
  by (simp add: calculateMigrationRate_def line_feature_def flattenCoords_def
      point_arr_def dist_js_def)

text \<open>
  C5, amended. For line-like geometries and a positive interval, when a geometry holds no
  coordinate the script returns a bare number and logs nothing: NaN when the earlier one is
  empty (\<open>0 / 0\<close>), \<open>Infinity\<close> when only the later one is. There is no
  degenerate flag, and no error is raised.
\<close>

theorem empty_set_not_flagged:
  assumes "List.member [''MultiLineString'', ''LineString''] (gtype (geometry c1))"
    and "List.member [''MultiLineString'', ''LineString''] (gtype (geometry c2))"
    and "0 < r"
    and "flattenCoords (coordinates (geometry c1)) = []
      \<or> flattenCoords (coordinates (geometry c2)) = []"
  shows "calculateMigrationRate c1 c2 (Fin r) =
     (if flattenCoords (coordinates (geometry c1)) = [] then NaN else PInf, [])"
  using assms by (auto simp add: calculateMigrationRate_value)

theorem empty_set_not_flagged_witness:
  "List.member [''MultiLineString'', ''LineString''] (gtype (geometry (line_feature [])))
   \<and> List.member [''MultiLineString'', ''LineString'']
     (gtype (geometry (line_feature [(2, 3), (4, 5)])))
   \<and> (0::real) < 7
   \<and> (flattenCoords (coordinates (geometry (line_feature []))) = []
      \<or> flattenCoords (coordinates (geometry (line_feature [(2, 3), (4, 5)]))) = [])
   \<and> calculateMigrationRate (line_feature []) (line_feature [(2, 3), (4, 5)]) (Fin 7)
      = (NaN, [])"
proof -
  have h1: "List.member [''MultiLineString'', ''LineString'']
     (gtype (geometry (line_feature [])))"
    by (rule line_feature_line_like)
  have h2: "List.member [''MultiLineString'', ''LineString'']
     (gtype (geometry (line_feature [(2, 3), (4, 5)])))"
    by (rule line_feature_line_like)
  have h3: "(0::real) < 7" by simp
  have e: "flattenCoords (coordinates (geometry (line_feature []))) = []"
    by (simp add: line_feature_def flattenCoords_def)
  then have h4: "flattenCoords (coordinates (geometry (line_feature []))) = []
      \<or> flattenCoords (coordinates (geometry (line_feature [(2, 3), (4, 5)]))) = []"
    by blast
  from h1 h2 h3 h4 e empty_set_not_flagged [OF h1 h2 h3 h4] show ?thesis
    by simp
qed

section \<open>The pipeline pairs consecutive epochs\<close>

lemma years_of_main: "years_loop start_year [] = Some [1995, 2005, 2015, 2025]"
  by (simp add: years_loop.simps start_year_def end_year_def time_interval_def)

lemma length_migrationRates_loop:
  "length (migrationRates_loop cs t) = length cs - 1"
  by (simp add: migrationRates_loop_def)

lemma length_migrationRateData:
  "length (migrationRateData years rates) = length years - 1"
  by (simp add: migrationRateData_def)

lemma nth_migrationRateData:
  assumes "i < length years - 1"
  shows "migrationRateData years rates ! i =
     \<lparr>Year1 = years ! i, Year2 = js_nth years (i + 1), MigrationRate = js_nth rates i\<rparr>"
  using assms by (simp add: migrationRateData_def nth_enumerate_eq)

lemma nth_main_from_years:
  assumes "i < length years - 1"
  shows "main_from_years cl years t ! i =
     \<lparr>Year1 = years ! i, Year2 = Some (years ! (i + 1)),
      MigrationRate = Some (fst (calculateMigrationRate (cl (years ! i))
         (cl (years ! (i + 1))) t))\<rparr>"
  using assms
  by (simp add: main_from_years_def Let_def nth_migrationRateData js_nth_def
      migrationRates_loop_def)

lemma length_main_from_years: "length (main_from_years cl years t) = length years - 1"
  by (simp add: main_from_years_def length_migrationRateData)

text \<open>
  C7. For a non-empty list of \<open>n\<close> epochs the pipeline produces \<open>n - 1\<close> rows, in
  epoch order; the \<open>i\<close>-th row is labelled with epoch \<open>i\<close> and epoch \<open>i + 1\<close>
  and holds the rate computed from their two centerlines. The script's own years, 1995 to
  2025 in steps of 10, are four epochs and give three rows.
\<close>

theorem pipeline_pairs_consecutive_epochs:
  assumes "years \<noteq> []"
  shows "length (main_from_years cl years t) + 1 = length years
    \<and> map Year1 (main_from_years cl years t) = butlast years
    \<and> map Year2 (main_from_years cl years t) = map Some (tl years)
    \<and> map MigrationRate (main_from_years cl years t) =
        map (\<lambda>i. Some (fst (calculateMigrationRate (cl (years ! i))
           (cl (years ! (i + 1))) t))) [0..<length years - 1]
    \<and> main cl = Some (main_from_years cl [1995, 2005, 2015, 2025] (Fin 10))
    \<and> length (main_from_years cl [1995, 2005, 2015, 2025] (Fin 10)) = 3"
proof -
  let ?rows = "main_from_years cl years t"
  have len: "length ?rows = length years - 1"
    by (rule length_main_from_years)
  have l1: "length ?rows + 1 = length years"
    using assms len by (cases years) simp_all
  have y1: "map Year1 ?rows = butlast years"
    by (rule nth_equalityI) (simp_all add: len nth_main_from_years nth_butlast)
  have y2: "map Year2 ?rows = map Some (tl years)"
    by (rule nth_equalityI) (simp_all add: len nth_main_from_years nth_tl)
  have mr: "map MigrationRate ?rows =
        map (\<lambda>i. Some (fst (calculateMigrationRate (cl (years ! i))
           (cl (years ! (i + 1))) t))) [0..<length years - 1]"
    by (rule nth_equalityI) (simp_all add: len nth_main_from_years)
  have m: "main cl = Some (main_from_years cl [1995, 2005, 2015, 2025] (Fin 10))"
    by (simp add: main_def years_of_main time_interval_def)
  have l4: "length (main_from_years cl [1995, 2005, 2015, 2025] (Fin 10)) = 3"
    by (simp add: length_main_from_years)
  from l1 y1 y2 mr m l4 show ?thesis by blast
qed

theorem pipeline_pairs_consecutive_epochs_witness:
  "[1995, 2005, 2015, 2025] \<noteq> ([] :: int list)
   \<and> length (main_from_years (\<lambda>y. line_feature [(real_of_int y, 0)])
        [1995, 2005, 2015, 2025] (Fin 10)) = 3
   \<and> map (\<lambda>r. (Year1 r, Year2 r)) (main_from_years (\<lambda>y. line_feature [(real_of_int y, 0)])
        [1995, 2005, 2015, 2025] (Fin 10)) =
      [(1995, Some 2005), (2005, Some 2015), (2015, Some 2025)]"
proof -
  have h: "[1995, 2005, 2015, 2025] \<noteq> ([] :: int list)" by simp
  have "map (\<lambda>r. (Year1 r, Year2 r)) rows = zip (map Year1 rows) (map Year2 rows)"
    for rows :: "rate_row list"
    by (induction rows) simp_all
  with h pipeline_pairs_consecutive_epochs
    [OF h, of "\<lambda>y. line_feature [(real_of_int y, 0)]" "Fin 10"]
  show ?thesis by simp
qed

section \<open>The centerline mask\<close>

lemma window_self: "p \<in> set (window n p)"
proof -
  have "\<exists>dx\<in>{- int (n div 2) .. int (n div 2)}.
      p \<in> (\<lambda>dy. (fst p + dx, snd p + dy)) ` {- int (n div 2) .. int (n div 2)}"
  proof (rule bexI [where x = 0])
    show "p \<in> (\<lambda>dy. (fst p + 0, snd p + dy)) ` {- int (n div 2) .. int (n div 2)}"
      by (rule image_eqI [where x = 0]) simp_all
    show "(0::int) \<in> {- int (n div 2) .. int (n div 2)}" by simp
  qed
  then show ?thesis by (simp add: window_def)
qed

lemma focal_max_ge:
  assumes "d p = Some v"
  shows "\<exists>m. focal_max d n p = Some m \<and> v \<le> m"
proof -
  let ?vs = "List.map_filter d (window n p)"
  have mem: "v \<in> set ?vs"
    using assms window_self [of p n] by (force simp add: map_filter_def)
  then have ne: "?vs \<noteq> []" by auto
  have "v \<le> Max (set ?vs)" using mem by simp
  with ne show ?thesis by (simp add: focal_max_def Let_def)
qed

lemma centerline_mask_empty: "centerline_mask d p = None"
proof (cases "d p")
  case None
  then show ?thesis by (simp add: centerline_mask_def selfMask_def gt_def)
next
  case (Some v)
  from focal_max_ge [of d p v 5] Some obtain m where "focal_max d 5 p = Some m" "v \<le> m"
    by blast
  with Some show ?thesis by (simp add: centerline_mask_def selfMask_def gt_def)
qed

lemma focal_max_eqI:
  assumes "d p = Some v" and "\<And>q w. d q = Some w \<Longrightarrow> w \<le> v"
  shows "focal_max d n p = Some v"
proof -
  let ?vs = "List.map_filter d (window n p)"
  have mem: "v \<in> set ?vs"
    using assms(1) window_self [of p n] by (force simp add: map_filter_def)
  then have ne: "?vs \<noteq> []" by auto
  have le: "w \<le> v" if "w \<in> set ?vs" for w
    using that assms(2) by (auto simp add: map_filter_def)
  have "Max (set ?vs) = v"
    by (rule Max_eqI) (use mem le in auto)
  with ne show ?thesis by (simp add: focal_max_def Let_def)
qed

lemma band_value: "band_distance (2, 0) = Some 3"
  by (simp add: band_distance_def)

lemma band_le: "band_distance q = Some w \<Longrightarrow> w \<le> 3"
  by (auto simp add: band_distance_def split: if_splits)

lemma band_focal: "focal_max band_distance 5 (2, 0) = Some 3"
  using band_value band_le by (rule focal_max_eqI [of band_distance "(2, 0)" 3 5])

lemma extractCenterline_raster_empty: "extractCenterline_raster ops img p = None"
  by (simp add: extractCenterline_raster_def Let_def centerline_mask_empty)

text \<open>
  C4. The script marks a pixel when its distance value is strictly greater (\<open>gt\<close>) than
  the maximum over a window that contains the pixel itself. No pixel of any image passes
  that test. In the band, the pixel \<open>(2, 0)\<close> of the centre column has the distance
  \<open>3\<close>, equal to the maximum \<open>3\<close> of its window: a tie, and it is not marked.
\<close>

theorem ties_are_not_skeleton:
  "extractCenterline_raster ops img p = None
   \<and> band_distance (2, 0) = Some 3
   \<and> focal_max band_distance 5 (2, 0) = Some 3
   \<and> centerline_mask band_distance (2, 0) = None"
  by (simp add: extractCenterline_raster_empty band_value band_focal centerline_mask_empty)

lemma reduceToVectors_no_pixels: "reduceToVectors ops (\<lambda>p. None) region = []"
  by (simp add: reduceToVectors_def)

lemma extractCenterline_empty: "extractCenterline ops study_area img = []"
proof -
  have "extractCenterline_raster ops img = (\<lambda>p. None)"
    by (rule ext) (rule extractCenterline_raster_empty)
  then show ?thesis
    by (simp add: extractCenterline_def reduceToVectors_no_pixels)
qed

text \<open>
  C8. For the mask that is false everywhere the centerline mask has no pixel; vectorizing a
  mask without pixels gives no polyline; and so \<open>extractCenterline\<close> returns the empty
  set of polylines. All three are plain values: nothing is signalled.
\<close>

theorem empty_mask_gives_no_centerline:
  "extractCenterline_raster ops (\<lambda>p. Some 0) p = None
   \<and> reduceToVectors ops (\<lambda>p. None) region = []
   \<and> extractCenterline ops study_area (\<lambda>p. Some 0) = []"
  by (simp add: extractCenterline_raster_empty reduceToVectors_no_pixels
      extractCenterline_empty)

end
